theory Spec2Isabelle
  imports Main "HOL-Library.Sublist"
begin

section \<open>JavaScript values\<close>

text \<open>
  The components handle whatever the backend's JSON bodies parse to, and they read
  fields that may be missing. A value is therefore one of JavaScript's: \<open>undefined\<close>,
  \<open>null\<close>, a boolean, a number, a string, an array or an object. Numbers are the
  integers among JavaScript's numbers (ids, clock readings and HTTP statuses are);
  an object is its list of own properties in insertion order.

  A string is a list of 8-bit characters: the UTF-8 bytes of the JavaScript string, so
  that a character outside ASCII is two to four bytes (the no-break space U+00A0 is
  \<open>C2 A0\<close>). The letters of \<open>[A-Z]\<close> under the flag \<open>i\<close> are the ASCII ones, as in
  JavaScript without the flag \<open>u\<close>; white space is JavaScript's whole set. \<open>toUpperCase\<close>
  is applied to a matched ticker only, which is ASCII letters and a dot. Decimal
  printing of a number is that of an integer below \<open>10^21\<close>, where JavaScript changes
  notation.
\<close>

datatype jsval =
    JUndefined
  | JNull
  | JBool bool
  | JNum int
  | JStr string
  | JArr "jsval list"
  | JObj "(string \<times> jsval) list"

text \<open>An exception value: its constructor name and its \<open>message\<close>.\<close>

datatype js_error =
    Error string
  | TypeError string
  | SyntaxError string

fun error_message :: "js_error \<Rightarrow> string" where
  "error_message (Error m) = m"
| "error_message (TypeError m) = m"
| "error_message (SyntaxError m) = m"

text \<open>\<open>ToBoolean\<close>: what \<open>if (v)\<close>, \<open>!v\<close>, \<open>a && b\<close> and \<open>a || b\<close> test.\<close>

fun truthy :: "jsval \<Rightarrow> bool" where
  "truthy JUndefined = False"
| "truthy JNull = False"
| "truthy (JBool b) = b"
| "truthy (JNum n) = (n \<noteq> 0)"
| "truthy (JStr s) = (s \<noteq> [])"
| "truthy (JArr xs) = True"
| "truthy (JObj kvs) = True"

definition js_or :: "jsval \<Rightarrow> jsval \<Rightarrow> jsval" where
  "js_or a b = (if truthy a then a else b)"

definition js_and :: "jsval \<Rightarrow> jsval \<Rightarrow> jsval" where
  "js_and a b = (if truthy a then b else a)"

text \<open>
  \<open>v.k\<close> for the property names the components read (\<open>data\<close>, \<open>steps\<close>, \<open>type\<close>,
  \<open>response\<close>, ...), none of which is an own or inherited property of a string, number,
  boolean or array. Reading a property of \<open>null\<close> or \<open>undefined\<close> throws a TypeError;
  \<open>JSON.parse\<close> keeps the last of duplicate keys.
\<close>

definition lookup :: "(string \<times> jsval) list \<Rightarrow> string \<Rightarrow> jsval" where
  "lookup kvs k = (case map_of (rev kvs) k of None \<Rightarrow> JUndefined | Some v \<Rightarrow> v)"

fun get :: "jsval \<Rightarrow> string \<Rightarrow> js_error + jsval" where
  "get JUndefined k =
     Inl (TypeError (''Cannot read properties of undefined (reading '' @ [CHR 0x27] @ k @ [CHR 0x27] @ '')''))"
| "get JNull k =
     Inl (TypeError (''Cannot read properties of null (reading '' @ [CHR 0x27] @ k @ [CHR 0x27] @ '')''))"
| "get (JObj kvs) k = Inr (lookup kvs k)"
| "get v k = Inr JUndefined"

text \<open>\<open>v?.k\<close>: \<open>undefined\<close> when \<open>v\<close> is \<open>null\<close> or \<open>undefined\<close>, and \<open>v.k\<close> otherwise.\<close>

fun get_opt :: "jsval \<Rightarrow> string \<Rightarrow> jsval" where
  "get_opt (JObj kvs) k = lookup kvs k"
| "get_opt v k = JUndefined"

section \<open>Strings\<close>

definition is_letter :: "char \<Rightarrow> bool" where
  \<comment> \<open>the class \<open>[A-Z]\<close> under the flag \<open>i\<close>\<close>
  "is_letter c = (let n = (of_char c :: nat) in (65 \<le> n \<and> n \<le> 90) \<or> (97 \<le> n \<and> n \<le> 122))"

text \<open>
  The white space of JavaScript, as \<open>\s\<close> and \<open>trim\<close> take it: the code points U+0009 to
  U+000D, U+0020, U+00A0, U+1680, U+2000 to U+200A, U+2028, U+2029, U+202F, U+205F,
  U+3000 and U+FEFF, each as its UTF-8 bytes.
\<close>

definition white_space :: "string list" where
  "white_space =
     [[CHR 0x09], [CHR 0x0A], [CHR 0x0B], [CHR 0x0C], [CHR 0x0D], [CHR 0x20],
      [CHR 0xC2, CHR 0xA0],
      [CHR 0xE1, CHR 0x9A, CHR 0x80],
      [CHR 0xE2, CHR 0x80, CHR 0x80], [CHR 0xE2, CHR 0x80, CHR 0x81],
      [CHR 0xE2, CHR 0x80, CHR 0x82], [CHR 0xE2, CHR 0x80, CHR 0x83],
      [CHR 0xE2, CHR 0x80, CHR 0x84], [CHR 0xE2, CHR 0x80, CHR 0x85],
      [CHR 0xE2, CHR 0x80, CHR 0x86], [CHR 0xE2, CHR 0x80, CHR 0x87],
      [CHR 0xE2, CHR 0x80, CHR 0x88], [CHR 0xE2, CHR 0x80, CHR 0x89],
      [CHR 0xE2, CHR 0x80, CHR 0x8A],
      [CHR 0xE2, CHR 0x80, CHR 0xA8], [CHR 0xE2, CHR 0x80, CHR 0xA9],
      [CHR 0xE2, CHR 0x80, CHR 0xAF],
      [CHR 0xE2, CHR 0x81, CHR 0x9F],
      [CHR 0xE3, CHR 0x80, CHR 0x80],
      [CHR 0xEF, CHR 0xBB, CHR 0xBF]]"

text \<open>
  \<open>strip ws s\<close> takes from the front of \<open>s\<close> the characters listed in \<open>ws\<close>, one after the
  other, until \<open>s\<close> starts with none of them. \<open>trim\<close> strips the white space of both ends;
  read from the end, a character is its bytes in reverse.
\<close>

fun strip :: "string list \<Rightarrow> string \<Rightarrow> string" where
  "strip ws [] = []"
| "strip ws (c # cs) =
     (case find (\<lambda>w. w \<noteq> [] \<and> prefix w (c # cs)) ws of
        None \<Rightarrow> c # cs
      | Some w \<Rightarrow> strip ws (drop (length w - 1) cs))"

definition to_upper :: "char \<Rightarrow> char" where
  "to_upper c = (let n = (of_char c :: nat) in if 97 \<le> n \<and> n \<le> 122 then char_of (n - 32) else c)"

definition toUpperCase :: "string \<Rightarrow> string" where
  "toUpperCase s = map to_upper s"

definition trim :: "string \<Rightarrow> string" where
  "trim s = rev (strip (map rev white_space) (rev (strip white_space s)))"

text \<open>
  \<open>s.replace(pat, "")\<close> with a string pattern: the first occurrence of the text \<open>pat\<close>
  is cut out, and \<open>s\<close> is returned as it is when \<open>pat\<close> does not occur.
\<close>

fun remove_first :: "string \<Rightarrow> string \<Rightarrow> string" where
  "remove_first pat [] = []"
| "remove_first pat (c # cs) =
     (if prefix pat (c # cs) then drop (length pat) (c # cs) else c # remove_first pat cs)"

section \<open>FloatingAgent: the ticker and query classifier\<close>

text \<open>
  The result of \<open>String.prototype.match\<close> with a regular expression that has no \<open>g\<close>
  flag: \<open>None\<close> for \<open>null\<close>, otherwise the matched text (\<open>m[0]\<close>) and the first capture
  group (\<open>m[1]\<close>).
\<close>

record rmatch =
  whole :: string
  group1 :: string

text \<open>
  \<open>/([A-Z]+\.(NS|BO))/i\<close> tried at the start of \<open>s\<close>. The greedy \<open>[A-Z]+\<close> takes the
  longest run of letters; giving letters back cannot help, since the next character
  would then be a letter and not the dot. The whole match is the first group.
\<close>

definition ticker_at :: "string \<Rightarrow> rmatch option" where
  "ticker_at s =
     (let L = takeWhile is_letter s; r = dropWhile is_letter s in
      if L \<noteq> [] \<and> take 1 r = ''.'' \<and>
         (toUpperCase (take 2 (drop 1 r)) = ''NS'' \<or> toUpperCase (take 2 (drop 1 r)) = ''BO'')
      then Some \<lparr>whole = L @ take 3 r, group1 = L @ take 3 r\<rparr>
      else None)"

text \<open>
  \<open>/analyze\s+([A-Z]+)/i\<close> tried at the start of \<open>s\<close>: the seven letters in either
  case, the longest run of white space (at least one character), then the longest run
  of letters (at least one), which is the group. Giving white space back cannot help:
  the next character would be white space and not a letter.
\<close>

definition analyze_at :: "string \<Rightarrow> rmatch option" where
  "analyze_at s =
     (let r = drop 7 s;
          rest = strip white_space r;
          ws = take (length r - length rest) r;
          L = takeWhile is_letter rest in
      if toUpperCase (take 7 s) = ''ANALYZE'' \<and> ws \<noteq> [] \<and> L \<noteq> []
      then Some \<lparr>whole = take 7 s @ ws @ L, group1 = L\<rparr>
      else None)"

text \<open>The leftmost match: every start position is tried in turn, the end of the string last.\<close>

fun search :: "(string \<Rightarrow> rmatch option) \<Rightarrow> string \<Rightarrow> rmatch option" where
  "search f [] = f []"
| "search f (c # cs) = (case f (c # cs) of Some m \<Rightarrow> Some m | None \<Rightarrow> search f cs)"

definition match_ticker_suffix :: "string \<Rightarrow> rmatch option" where
  "match_ticker_suffix userInput = search ticker_at userInput"

definition match_analyze :: "string \<Rightarrow> rmatch option" where
  "match_analyze userInput = search analyze_at userInput"

text \<open>Where \<open>sendMessage\<close> sends the trimmed input: to \<open>runResearchAgent(ticker, query)\<close> or to \<open>runLLM(model, prompt)\<close>.\<close>

datatype route =
    Research string string
  | GenericLLM string string

definition default_query :: string where
  "default_query = ''Provide a comprehensive analysis''"

definition classify :: "string \<Rightarrow> route" where
  "classify userInput =
     (case (case match_ticker_suffix userInput of
              Some m \<Rightarrow> Some m
            | None \<Rightarrow> match_analyze userInput) of
        Some tickerMatch \<Rightarrow>
          (let ticker = (if toUpperCase (group1 tickerMatch) \<noteq> []
                         then toUpperCase (group1 tickerMatch) else group1 tickerMatch);
               rest = trim (remove_first (whole tickerMatch) userInput);
               query = (if rest \<noteq> [] then rest else default_query)
           in Research ticker query)
      | None \<Rightarrow> GenericLLM ''auto'' userInput)"








section \<open>The API client (agentApi.js)\<close>

text \<open>
  A request as \<open>fetch\<close> is given it; \<open>req_body\<close> is the value handed to
  \<open>JSON.stringify\<close>. A response is its status and what \<open>res.json()\<close> parses its body
  to (\<open>None\<close> when the body is not JSON); \<open>res.ok\<close> holds for the statuses 200 to 299.
\<close>

record request =
  req_url :: string
  req_method :: string
  req_headers :: "(string \<times> string) list"
  req_body :: jsval

record response =
  status :: nat
  json_body :: "jsval option"

definition ok :: "response \<Rightarrow> bool" where
  "ok res = (200 \<le> status res \<and> status res \<le> 299)"

datatype fetch_result =
    Rejected js_error
  | Resolved response

text \<open>
  The network: \<open>respond n req\<close> is what the request \<open>req\<close> meets when it is the \<open>n\<close>-th one
  sent (the backend may answer the same request differently each time), and \<open>sent\<close> is
  the log of the requests sent so far. Each \<open>fetch\<close> is one round trip.
\<close>

record network =
  respond :: "nat \<Rightarrow> request \<Rightarrow> fetch_result"
  sent :: "request list"

definition fetch :: "request \<Rightarrow> network \<Rightarrow> fetch_result \<times> network" where
  "fetch req net = (respond net (length (sent net)) req, net\<lparr>sent := sent net @ [req]\<rparr>)"

definition json :: "response \<Rightarrow> js_error + jsval" where
  "json res = (case json_body res of
                 None \<Rightarrow> Inl (SyntaxError ''Unexpected token in JSON'')
               | Some v \<Rightarrow> Inr v)"

text \<open>The decimal digits of a number, as a template literal prints \<open>res.status\<close>.\<close>

fun show_nat :: "nat \<Rightarrow> string" where
  "show_nat n = (if n < 10 then [''0123456789'' ! n]
                 else show_nat (n div 10) @ [''0123456789'' ! (n mod 10)])"

definition show_int :: "int \<Rightarrow> string" where
  "show_int i = (if i < 0 then ''-'' @ show_nat (nat (- i)) else show_nat (nat i))"

definition API_BASE_URL :: string where
  "API_BASE_URL = ''http://127.0.0.1:8000/api/agents''"

definition json_headers :: "(string \<times> string) list" where
  "json_headers = [(''Content-Type'', ''application/json'')]"

text \<open>An optional parameter with the default \<open>null\<close>, and a list of strings as an array.\<close>

definition or_null :: "('a \<Rightarrow> jsval) \<Rightarrow> 'a option \<Rightarrow> jsval" where
  "or_null f x = (case x of None \<Rightarrow> JNull | Some v \<Rightarrow> f v)"

definition strings :: "string list \<Rightarrow> jsval" where
  "strings xs = JArr (map JStr xs)"

definition runResearchAgent ::
  "string \<Rightarrow> string option \<Rightarrow> network \<Rightarrow> (js_error + jsval) \<times> network" where
  "runResearchAgent ticker query net =
     (case fetch \<lparr>req_url = API_BASE_URL @ ''/research'', req_method = ''POST'',
                   req_headers = json_headers,
                   req_body = JObj [(''ticker'', JStr ticker), (''query'', or_null JStr query)]\<rparr> net of
        (Rejected e, net') \<Rightarrow> (Inl e, net')
      | (Resolved res, net') \<Rightarrow>
          if \<not> ok res then (Inl (Error (''Research agent error: '' @ show_nat (status res))), net')
          else (json res, net'))"

definition runSentimentAgent ::
  "string list \<Rightarrow> string list option \<Rightarrow> network \<Rightarrow> (js_error + jsval) \<times> network" where
  "runSentimentAgent texts sources net =
     (case fetch \<lparr>req_url = API_BASE_URL @ ''/sentiment'', req_method = ''POST'',
                   req_headers = json_headers,
                   req_body = JObj [(''texts'', strings texts), (''sources'', or_null strings sources)]\<rparr> net of
        (Rejected e, net') \<Rightarrow> (Inl e, net')
      | (Resolved res, net') \<Rightarrow>
          if \<not> ok res then (Inl (Error (''Sentiment agent error: '' @ show_nat (status res))), net')
          else (json res, net'))"

definition runPortfolioAgent ::
  "string list \<Rightarrow> string option \<Rightarrow> network \<Rightarrow> (js_error + jsval) \<times> network" where
  "runPortfolioAgent tickers watchlistId net =
     (case fetch \<lparr>req_url = API_BASE_URL @ ''/portfolio'', req_method = ''POST'',
                   req_headers = json_headers,
                   req_body = JObj [(''tickers'', strings tickers),
                                    (''watchlist_id'', or_null JStr watchlistId)]\<rparr> net of
        (Rejected e, net') \<Rightarrow> (Inl e, net')
      | (Resolved res, net') \<Rightarrow>
          if \<not> ok res then (Inl (Error (''Portfolio agent error: '' @ show_nat (status res))), net')
          else (json res, net'))"

definition runLLM :: "string \<Rightarrow> string \<Rightarrow> network \<Rightarrow> (js_error + jsval) \<times> network" where
  "runLLM model prompt net =
     (case fetch \<lparr>req_url = API_BASE_URL @ ''/llm'', req_method = ''POST'',
                   req_headers = json_headers,
                   req_body = JObj [(''model'', JStr model), (''prompt'', JStr prompt)]\<rparr> net of
        (Rejected e, net') \<Rightarrow> (Inl e, net')
      | (Resolved res, net') \<Rightarrow>
          if \<not> ok res then (Inl (Error (''LLM API error: '' @ show_nat (status res))), net')
          else (json res, net'))"

definition runGeminiLLM :: "string \<Rightarrow> network \<Rightarrow> (js_error + jsval) \<times> network" where
  "runGeminiLLM prompt net = runLLM ''gemini-pro'' prompt net"

definition runGroqLLM :: "string \<Rightarrow> network \<Rightarrow> (js_error + jsval) \<times> network" where
  "runGroqLLM prompt net = runLLM ''groq-llama3'' prompt net"

text \<open>
  The four operations of the client under one name, to state what they share: the call
  with its arguments, the request the interface table gives for it, and the name its
  error message starts with.
\<close>

datatype api_call =
    ResearchCall string "string option"
  | SentimentCall "string list" "string list option"
  | PortfolioCall "string list" "string option"
  | LLMCall string string

fun perform :: "api_call \<Rightarrow> network \<Rightarrow> (js_error + jsval) \<times> network" where
  "perform (ResearchCall ticker query) net = runResearchAgent ticker query net"
| "perform (SentimentCall texts sources) net = runSentimentAgent texts sources net"
| "perform (PortfolioCall tickers watchlistId) net = runPortfolioAgent tickers watchlistId net"
| "perform (LLMCall model prompt) net = runLLM model prompt net"

fun operation_name :: "api_call \<Rightarrow> string" where
  "operation_name (ResearchCall ticker query) = ''Research agent''"
| "operation_name (SentimentCall texts sources) = ''Sentiment agent''"
| "operation_name (PortfolioCall tickers watchlistId) = ''Portfolio agent''"
| "operation_name (LLMCall model prompt) = ''LLM API''"

fun path_of :: "api_call \<Rightarrow> string" where
  "path_of (ResearchCall ticker query) = ''/research''"
| "path_of (SentimentCall texts sources) = ''/sentiment''"
| "path_of (PortfolioCall tickers watchlistId) = ''/portfolio''"
| "path_of (LLMCall model prompt) = ''/llm''"

fun payload_of :: "api_call \<Rightarrow> jsval" where
  "payload_of (ResearchCall ticker query) =
     JObj [(''ticker'', JStr ticker), (''query'', or_null JStr query)]"
| "payload_of (SentimentCall texts sources) =
     JObj [(''texts'', strings texts), (''sources'', or_null strings sources)]"
| "payload_of (PortfolioCall tickers watchlistId) =
     JObj [(''tickers'', strings tickers), (''watchlist_id'', or_null JStr watchlistId)]"
| "payload_of (LLMCall model prompt) =
     JObj [(''model'', JStr model), (''prompt'', JStr prompt)]"

definition request_of :: "api_call \<Rightarrow> request" where
  "request_of c = \<lparr>req_url = ''http://127.0.0.1:8000/api/agents'' @ path_of c,
                    req_method = ''POST'',
                    req_headers = [(''Content-Type'', ''application/json'')],
                    req_body = payload_of c\<rparr>"

section \<open>ResearchAgent: collapsing steps\<close>

text \<open>
  \<open>collapsedSteps\<close> starts as \<open>{}\<close> and is written by \<open>toggleStep\<close> only, which stores
  booleans under step indices. \<open>collapsed\<close> is the flag the steps pane passes to a step:
  \<open>!!collapsedSteps[index]\<close>.
\<close>

type_synonym collapsed_map = "nat \<rightharpoonup> bool"

definition collapsed :: "collapsed_map \<Rightarrow> nat \<Rightarrow> bool" where
  "collapsed prev index = (case prev index of None \<Rightarrow> False | Some b \<Rightarrow> b)"

definition toggleStep :: "collapsed_map \<Rightarrow> nat \<Rightarrow> collapsed_map" where
  "toggleStep prev index = prev(index \<mapsto> \<not> collapsed prev index)"

section \<open>Messages and state updates\<close>

text \<open>
  A message of either message log. ResearchAgent's messages carry an \<open>id\<close>;
  FloatingAgent's are \<open>{type, content}\<close> only, so the id is optional. Type and content
  are whatever values the handlers put there, the backend's included.
\<close>

record message =
  msg_id :: "int option"
  msg_type :: jsval
  content :: jsval

text \<open>
  \<open>setMessages((prev) => [...prev, m])\<close> queues an updater that React applies after the
  handler's synchronous section. The message \<open>m\<close> is built when the updater runs; if
  building it throws (a property of \<open>null\<close>, a method that is not there), the throw happens
  inside React's render, outside the handler's \<open>try\<close>. A queued updater is therefore the
  message it appends or the error it throws; the queue is applied in order and stops at
  the first throw.
\<close>

fun apply_updaters :: "message list \<Rightarrow> (js_error + message) list \<Rightarrow> js_error + message list" where
  "apply_updaters prev [] = Inr prev"
| "apply_updaters prev (Inl e # us) = Inl e"
| "apply_updaters prev (Inr m # us) = apply_updaters (prev @ [m]) us"

text \<open>
  How a handler ends: it runs to its last line (\<open>Done\<close>, with the state it leaves); the
  promise it returns rejects because nothing caught an error (\<open>Unhandled\<close>, with the state
  as the updates before the throw left it); or a queued updater throws while React applies
  it, which takes the view down (\<open>RenderCrash\<close>).
\<close>

datatype 's outcome =
    Done 's
  | Unhandled js_error 's
  | RenderCrash js_error

section \<open>ResearchAgent\<close>

record research_state =
  messages :: "message list"
  steps :: jsval
  finalAns :: jsval
  loading :: bool
  exporting :: bool
  query :: string
  ticker :: string
  collapsedSteps :: collapsed_map

definition initial_research_state :: research_state where
  "initial_research_state =
     \<lparr>messages = [], steps = JArr [], finalAns = JStr [], loading = False, exporting = False,
      query = [], ticker = [], collapsedSteps = Map.empty\<rparr>"

subsection \<open>runAgent\<close>

text \<open>
  The part of \<open>runAgent\<close> before the \<open>await\<close>, with \<open>now\<close> the reading of \<open>Date.now()\<close>:
  \<open>None\<close> when the guard returns, otherwise the state with which the request for
  \<open>(ticker, query)\<close> is issued.
\<close>

definition runAgent_start :: "research_state \<Rightarrow> int \<Rightarrow> research_state option" where
  "runAgent_start st now =
     (if trim (query st) = [] \<or> trim (ticker st) = [] then None
      else Some (st\<lparr>messages := messages st @
                       [\<lparr>msg_id = Some now, msg_type = JStr ''user'',
                         content = JStr (''Ticker: '' @ ticker st @ [CHR 0x0A] @ ''Query: '' @ query st)\<rparr>],
                     steps := JArr [],
                     finalAns := JStr [],
                     loading := True\<rparr>))"

text \<open>The body of the \<open>try\<close> once the response \<open>res\<close> is there; \<open>now\<close> is the later reading of the clock.\<close>

definition runAgent_try :: "research_state \<Rightarrow> jsval \<Rightarrow> int \<Rightarrow> js_error + research_state" where
  "runAgent_try st res now =
     (case get res ''data'' of
        Inl e \<Rightarrow> Inl e
      | Inr data \<Rightarrow>
          (let st1 = (if truthy (get_opt data ''steps'')
                      then st\<lparr>steps := get_opt data ''steps''\<rparr> else st);
               st2 = (if truthy (get_opt data ''ai_summary'')
                      then st1\<lparr>finalAns := get_opt data ''ai_summary'',
                               messages := messages st1 @
                                 [\<lparr>msg_id = Some (now + 1), msg_type = JStr ''agent'',
                                   content = get_opt data ''ai_summary''\<rparr>]\<rparr>
                      else st1)
           in Inr st2))"

definition runAgent_catch :: "research_state \<Rightarrow> int \<Rightarrow> research_state" where
  "runAgent_catch st now =
     st\<lparr>messages := messages st @
          [\<lparr>msg_id = Some (now + 2), msg_type = JStr ''error'',
            content = JStr ''Research Agent crashed. Try again.''\<rparr>]\<rparr>"

text \<open>
  The part after the \<open>await\<close>: the call threw or returned \<open>res\<close>; the \<open>catch\<close> covers both
  the call and the body of the \<open>try\<close>; \<open>setLoading(false)\<close> comes last.
\<close>

definition runAgent_settle :: "research_state \<Rightarrow> js_error + jsval \<Rightarrow> int \<Rightarrow> research_state" where
  "runAgent_settle st r now =
     (case r of
        Inl e \<Rightarrow> runAgent_catch st now
      | Inr res \<Rightarrow>
          (case runAgent_try st res now of
             Inl e \<Rightarrow> runAgent_catch st now
           | Inr st' \<Rightarrow> st'))\<lparr>loading := False\<rparr>"

text \<open>A whole run with nothing in between: \<open>t0\<close> and \<open>t1\<close> are the two readings of the clock.\<close>

definition runAgent :: "research_state \<Rightarrow> int \<Rightarrow> int \<Rightarrow> network \<Rightarrow> research_state \<times> network" where
  "runAgent st t0 t1 net =
     (case runAgent_start st t0 of
        None \<Rightarrow> (st, net)
      | Some st1 \<Rightarrow>
          (case runResearchAgent (ticker st) (Some (query st)) net of
             (r, net') \<Rightarrow> (runAgent_settle st1 r t1, net')))"

subsection \<open>runGemini and runGroq\<close>

definition runGemini :: "research_state \<Rightarrow> int \<Rightarrow> network \<Rightarrow> research_state outcome \<times> network" where
  "runGemini st now net =
     (if trim (query st) = [] then (Done st, net)
      else
        (case runGeminiLLM (query st) net of
           (Inl e, net') \<Rightarrow> (Unhandled e (st\<lparr>loading := True\<rparr>), net')
         | (Inr res, net') \<Rightarrow>
             (case get res ''response'' of
                Inl e \<Rightarrow> (RenderCrash e, net')
              | Inr v \<Rightarrow>
                  (Done (st\<lparr>loading := False,
                            messages := messages st @
                              [\<lparr>msg_id = Some now, msg_type = JStr ''agent'', content = v\<rparr>]\<rparr>),
                   net'))))"

definition runGroq :: "research_state \<Rightarrow> int \<Rightarrow> network \<Rightarrow> research_state outcome \<times> network" where
  "runGroq st now net =
     (if trim (query st) = [] then (Done st, net)
      else
        (case runGroqLLM (query st) net of
           (Inl e, net') \<Rightarrow> (Unhandled e (st\<lparr>loading := True\<rparr>), net')
         | (Inr res, net') \<Rightarrow>
             (case get res ''response'' of
                Inl e \<Rightarrow> (RenderCrash e, net')
              | Inr v \<Rightarrow>
                  (Done (st\<lparr>loading := False,
                            messages := messages st @
                              [\<lparr>msg_id = Some now, msg_type = JStr ''agent'', content = v\<rparr>]\<rparr>),
                   net'))))"

subsection \<open>handleExportPdf\<close>

text \<open>
  The libraries the export goes through, each call returning or throwing, with the
  fixed options and formats of the source: \<open>html2canvas\<close> on the element,
  \<open>canvas.toDataURL\<close>, the \<open>jsPDF\<close> constructor, \<open>getImageProperties\<close>, the page width,
  \<open>addImage\<close> and \<open>save\<close>. The height given to \<open>addImage\<close> is the quotient
  \<open>(imgProps.height * pdfWidth) / imgProps.width\<close>, kept as its numerator and denominator.
\<close>

record image_props =
  img_width :: int
  img_height :: int

record add_image_args =
  image_data :: string
  image_format :: string
  at_x :: int
  at_y :: int
  draw_width :: int
  draw_height_num :: int
  draw_height_den :: int

record pdf_libs =
  html2canvas :: "string \<Rightarrow> js_error + string"
  toDataURL :: "string \<Rightarrow> js_error + string"
  new_jsPDF :: "js_error option"
  getImageProperties :: "string \<Rightarrow> js_error + image_props"
  getWidth :: "js_error + int"
  addImage :: "add_image_args \<Rightarrow> js_error option"
  save :: "string \<Rightarrow> js_error option"

text \<open>What the page shows outside the components' state: the console, the alerts, the files saved.\<close>

record browser =
  console_errors :: "js_error list"
  alerts :: "string list"
  downloads :: "string list"

definition export_try :: "pdf_libs \<Rightarrow> string \<Rightarrow> js_error + string" where
  "export_try libs node =
     (case html2canvas libs node of
        Inl e \<Rightarrow> Inl e
      | Inr canvas \<Rightarrow>
     (case toDataURL libs canvas of
        Inl e \<Rightarrow> Inl e
      | Inr imgData \<Rightarrow>
     (case new_jsPDF libs of
        Some e \<Rightarrow> Inl e
      | None \<Rightarrow>
     (case getImageProperties libs imgData of
        Inl e \<Rightarrow> Inl e
      | Inr imgProps \<Rightarrow>
     (case getWidth libs of
        Inl e \<Rightarrow> Inl e
      | Inr pdfWidth \<Rightarrow>
     (case addImage libs \<lparr>image_data = imgData, image_format = ''PNG'', at_x = 0, at_y = 0,
                           draw_width = pdfWidth,
                           draw_height_num = img_height imgProps * pdfWidth,
                           draw_height_den = img_width imgProps\<rparr> of
        Some e \<Rightarrow> Inl e
      | None \<Rightarrow>
     (case save libs ''research-report.pdf'' of
        Some e \<Rightarrow> Inl e
      | None \<Rightarrow> Inr ''research-report.pdf'')))))))"

text \<open>\<open>pdfRef\<close> is \<open>pdfRef.current\<close>: \<open>None\<close> for \<open>null\<close>, otherwise the element to export.\<close>

definition handleExportPdf ::
  "research_state \<Rightarrow> browser \<Rightarrow> pdf_libs \<Rightarrow> string option \<Rightarrow> research_state \<times> browser" where
  "handleExportPdf st br libs pdfRef =
     (case pdfRef of
        None \<Rightarrow> (st, br)
      | Some node \<Rightarrow>
          (case export_try libs node of
             Inl e \<Rightarrow>
               ((st\<lparr>exporting := True\<rparr>)\<lparr>exporting := False\<rparr>,
                br\<lparr>console_errors := console_errors br @ [e],
                   alerts := alerts br @ [''Failed to export PDF'']\<rparr>)
           | Inr file \<Rightarrow>
               ((st\<lparr>exporting := True\<rparr>)\<lparr>exporting := False\<rparr>,
                br\<lparr>downloads := downloads br @ [file]\<rparr>)))"

subsection \<open>StepItem and ChartCard\<close>

datatype chart_view =
    NoChartData
  | LineChart "jsval list" jsval jsval

fun isArray :: "jsval \<Rightarrow> bool" where
  "isArray (JArr xs) = True"
| "isArray v = False"

fun elements :: "jsval \<Rightarrow> jsval list" where
  "elements (JArr xs) = xs"
| "elements v = []"

definition ChartCard :: "jsval \<Rightarrow> jsval \<Rightarrow> jsval \<Rightarrow> chart_view" where
  "ChartCard data xKey yKey =
     (if \<not> truthy data \<or> \<not> isArray data \<or> length (elements data) = 0 then NoChartData
      else LineChart (elements data) xKey yKey)"

text \<open>
  What a step renders to. A child of the card's body is a value React renders as it is
  (a falsy left operand of \<open>&&\<close>), the step's content handed to the markdown component,
  or the chart. React refuses an object as a child, which is what the type label can be.
\<close>

datatype child =
    Raw jsval
  | Markdown jsval
  | Chart chart_view

record step_view =
  step_number :: nat
  type_label :: jsval
  toggle_label :: string
  body :: "child list"

fun valid_child :: "jsval \<Rightarrow> bool" where
  "valid_child (JObj kvs) = False"
| "valid_child (JArr xs) = list_all valid_child xs"
| "valid_child v = True"

definition StepItem :: "jsval \<Rightarrow> nat \<Rightarrow> bool \<Rightarrow> js_error + step_view" where
  "StepItem step index is_collapsed =
     (case get step ''type'' of
        Inl e \<Rightarrow> Inl e
      | Inr ty \<Rightarrow>
          (let isChart = (if ty = JStr ''chart'' then get_opt step ''chartData'' else JBool False);
               label = js_or ty (JStr ''step'')
           in if \<not> valid_child label
              then Inl (Error ''Objects are not valid as a React child'')
              else Inr \<lparr>step_number = index + 1,
                        type_label = label,
                        toggle_label = (if is_collapsed then ''Expand'' else ''Collapse''),
                        body =
                          (if is_collapsed then []
                           else [if truthy (get_opt step ''content'')
                                 then Markdown (get_opt step ''content'')
                                 else Raw (get_opt step ''content''),
                                 if truthy isChart
                                 then Chart (ChartCard (get_opt step ''chartData'')
                                               (js_or (get_opt step ''xKey'') (JStr ''x''))
                                               (js_or (get_opt step ''yKey'') (JStr ''y'')))
                                 else Raw isChart])\<rparr>))"

section \<open>FloatingAgent\<close>

record floating_state =
  fa_open :: bool
  fa_messages :: "message list"
  fa_input :: string
  isThinking :: bool

text \<open>
  \<open>Array.prototype.join\<close>: \<open>null\<close> and \<open>undefined\<close> elements give the empty string, the
  others their \<open>ToString\<close>.
\<close>

fun intercalate :: "string \<Rightarrow> string list \<Rightarrow> string" where
  "intercalate sep [] = []"
| "intercalate sep [x] = x"
| "intercalate sep (x # y # ys) = x @ sep @ intercalate sep (y # ys)"

fun ToString :: "jsval \<Rightarrow> string" where
  "ToString JUndefined = ''undefined''"
| "ToString JNull = ''null''"
| "ToString (JBool b) = (if b then ''true'' else ''false'')"
| "ToString (JNum n) = show_int n"
| "ToString (JStr s) = s"
| "ToString (JArr xs) =
     intercalate '','' (map (\<lambda>x. if x = JUndefined \<or> x = JNull then [] else ToString x) xs)"
| "ToString (JObj kvs) = ''[object Object]''"

definition join :: "jsval list \<Rightarrow> string \<Rightarrow> string" where
  "join xs sep =
     intercalate sep (map (\<lambda>x. if x = JUndefined \<or> x = JNull then [] else ToString x) xs)"

text \<open>The updater queued for one step: \<open>{ type: s.type || "step", content: s.content }\<close>.\<close>

definition step_updater :: "jsval \<Rightarrow> js_error + message" where
  "step_updater s =
     (case get s ''type'' of
        Inl e \<Rightarrow> Inl e
      | Inr ty \<Rightarrow>
          (case get s ''content'' of
             Inl e \<Rightarrow> Inl e
           | Inr c \<Rightarrow> Inr \<lparr>msg_id = None, msg_type = js_or ty (JStr ''step''), content = c\<rparr>))"

definition recommendations_updater :: "jsval \<Rightarrow> js_error + message" where
  "recommendations_updater recs =
     (if isArray recs
      then Inr \<lparr>msg_id = None, msg_type = JStr ''agent'',
                content = JStr (''**Recommendations:**'' @ [CHR 0x0A] @ join (elements recs) [CHR 0x0A])\<rparr>
      else Inl (TypeError ''res.data.recommendations.join is not a function''))"

text \<open>
  The research branch of the \<open>try\<close> once the response is there: the error thrown in the
  handler, if any, and the updaters queued before it.
\<close>

definition research_reply :: "jsval \<Rightarrow> js_error option \<times> (js_error + message) list" where
  "research_reply res =
     (case get res ''data'' of
        Inl e \<Rightarrow> (Some e, [])
      | Inr data \<Rightarrow>
          if truthy (get_opt data ''steps'') \<and> \<not> isArray (get_opt data ''steps'')
          then (Some (TypeError ''res.data.steps.forEach is not a function''), [])
          else
            (let step_ups = (if truthy (get_opt data ''steps'')
                             then map step_updater (elements (get_opt data ''steps'')) else []);
                 summary = js_or (get_opt data ''ai_summary'') (get_opt data ''summary'')
             in (None,
                 step_ups @
                 (if truthy summary
                  then [Inr \<lparr>msg_id = None, msg_type = JStr ''agent'', content = summary\<rparr>]
                  else if truthy (get_opt data ''recommendations'')
                  then [recommendations_updater (get_opt data ''recommendations'')]
                  else []))))"

definition llm_reply :: "jsval \<Rightarrow> js_error option \<times> (js_error + message) list" where
  "llm_reply res =
     (case get res ''success'' of
        Inl e \<Rightarrow> (Some e, [])
      | Inr success \<Rightarrow>
          if truthy (js_and success (get_opt res ''response''))
          then (None, [Inr \<lparr>msg_id = None, msg_type = JStr ''agent'',
                            content = get_opt res ''response''\<rparr>])
          else (None, [Inr \<lparr>msg_id = None, msg_type = JStr ''error'',
                            content = js_or (get_opt res ''error'') (JStr ''Failed to get response'')\<rparr>]))"

text \<open>The warning sign of the \<open>catch\<close> message, U+26A0 U+FE0F, in UTF-8.\<close>

definition warning_sign :: string where
  "warning_sign = [CHR 0xE2, CHR 0x9A, CHR 0xA0, CHR 0xEF, CHR 0xB8, CHR 0x8F]"

definition catch_updater :: "js_error \<Rightarrow> js_error + message" where
  "catch_updater err =
     Inr \<lparr>msg_id = None, msg_type = JStr ''error'',
          content = JStr (warning_sign @ '' Error: '' @
                          (if error_message err \<noteq> [] then error_message err else ''Agent failed. Try again.''))\<rparr>"

text \<open>
  The \<open>try\<close> and \<open>catch\<close> of \<open>sendMessage\<close> for the trimmed input: the updaters it queues,
  the \<open>catch\<close>'s last when something was thrown.
\<close>

definition sendMessage_try ::
  "string \<Rightarrow> network \<Rightarrow> (js_error + message) list \<times> network" where
  "sendMessage_try userInput net =
     (case (case classify userInput of
              Research tickerSymbol queryText \<Rightarrow>
                (case runResearchAgent tickerSymbol (Some queryText) net of
                   (Inl e, net') \<Rightarrow> ((Some e, []), net')
                 | (Inr res, net') \<Rightarrow> (research_reply res, net'))
            | GenericLLM model prompt \<Rightarrow>
                (case runLLM model prompt net of
                   (Inl e, net') \<Rightarrow> ((Some e, []), net')
                 | (Inr res, net') \<Rightarrow> (llm_reply res, net'))) of
        ((None, ups), net') \<Rightarrow> (ups, net')
      | ((Some err, ups), net') \<Rightarrow> (ups @ [catch_updater err], net'))"

definition sendMessage :: "floating_state \<Rightarrow> network \<Rightarrow> floating_state outcome \<times> network" where
  "sendMessage st net =
     (if trim (fa_input st) = [] then (Done st, net)
      else
        (case sendMessage_try (trim (fa_input st)) net of
           (ups, net') \<Rightarrow>
             (case apply_updaters
                     (fa_messages st @
                        [\<lparr>msg_id = None, msg_type = JStr ''user'', content = JStr (fa_input st)\<rparr>])
                     ups of
                Inl e \<Rightarrow> (RenderCrash e, net')
              | Inr msgs \<Rightarrow>
                  (Done (st\<lparr>fa_messages := msgs, fa_input := [], isThinking := False\<rparr>), net'))))"

text \<open>The call of the client that a route of the classifier stands for.\<close>

fun call_of_route :: "route \<Rightarrow> api_call" where
  "call_of_route (Research tickerSymbol queryText) = ResearchCall tickerSymbol (Some queryText)"
| "call_of_route (GenericLLM model prompt) = LLMCall model prompt"

section \<open>Scenarios\<close>

text \<open>A backend that answers every request with the same response, and nothing sent yet.\<close>

definition always_responds :: "response \<Rightarrow> network" where
  "always_responds r = \<lparr>respond = (\<lambda>n req. Resolved r), sent = []\<rparr>"

text \<open>The state once \<open>runAgent\<close> has reached its \<open>await\<close> (or returned at the guard).\<close>

definition runAgent_before_await :: "research_state \<Rightarrow> int \<Rightarrow> research_state" where
  "runAgent_before_await st now = (case runAgent_start st now of None \<Rightarrow> st | Some st' \<Rightarrow> st')"

text \<open>
  Two runs that overlap. The button is disabled while \<open>loading\<close>, but the Enter key in
  the query field calls \<open>runAgent\<close> all the same. Run A starts, run B starts while A is in
  flight, B's response (steps, no summary) arrives first, A's response (a summary, no
  steps) last.
\<close>

definition response_A :: jsval where
  "response_A = JObj [(''data'', JObj [(''ai_summary'', JStr ''answer of run A'')])]"

definition response_B :: jsval where
  "response_B =
     JObj [(''data'', JObj [(''steps'',
        JArr [JObj [(''type'', JStr ''tool''), (''content'', JStr ''step of run B'')]])])]"

definition overlapping_runs :: research_state where
  "overlapping_runs =
     runAgent_settle
       (runAgent_settle
          (runAgent_before_await
             (runAgent_before_await
                (initial_research_state\<lparr>query := ''outlook'', ticker := ''TCS.NS''\<rparr>) 10) 20)
          (Inr response_B) 30)
       (Inr response_A) 40"

text \<open>What a run's outcome holds for the steps list and for the final answer.\<close>

definition steps_of_outcome :: "js_error + jsval \<Rightarrow> jsval" where
  "steps_of_outcome r =
     (case r of
        Inl e \<Rightarrow> JArr []
      | Inr res \<Rightarrow>
          (case get res ''data'' of
             Inl e \<Rightarrow> JArr []
           | Inr d \<Rightarrow> if truthy (get_opt d ''steps'') then get_opt d ''steps'' else JArr []))"

definition answer_of_outcome :: "js_error + jsval \<Rightarrow> jsval" where
  "answer_of_outcome r =
     (case r of
        Inl e \<Rightarrow> JStr []
      | Inr res \<Rightarrow>
          (case get res ''data'' of
             Inl e \<Rightarrow> JStr []
           | Inr d \<Rightarrow>
               if truthy (get_opt d ''ai_summary'') then get_opt d ''ai_summary'' else JStr []))"

text \<open>Export libraries whose rasterizer throws; the other calls would go through.\<close>

definition failing_rasterizer :: pdf_libs where
  "failing_rasterizer =
     \<lparr>html2canvas = (\<lambda>node. Inl (Error ''Unable to clone the element'')),
      toDataURL = (\<lambda>canvas. Inr (''data:image/png;base64,'' @ canvas)),
      new_jsPDF = None,
      getImageProperties = (\<lambda>imgData. Inr \<lparr>img_width = 800, img_height = 600\<rparr>),
      getWidth = Inr 210,
      addImage = (\<lambda>args. None),
      save = (\<lambda>name. None)\<rparr>"

section \<open>Properties\<close>

subsection \<open>Collapsing steps\<close>

text \<open>
  C9. For every step index \<open>i\<close> and every collapsed-state map, toggling step \<open>i\<close> twice
  gives back the collapsed flag observed for \<open>i\<close> and leaves the flag of every other index
  \<open>j\<close> as it was: the observed flag of every index is the original one. One toggle does
  flip the flag of \<open>i\<close>.
\<close>

theorem toggleStep_twice:
  "collapsed (toggleStep (toggleStep m i) i) j = collapsed m j \<and>
   collapsed (toggleStep m i) i = (\<not> collapsed m i)"
  by (simp add: toggleStep_def collapsed_def)

subsection \<open>The classifier\<close>

































subsection \<open>The API client\<close>

lemma fetch_sent: "sent (snd (fetch req net)) = sent net @ [req]"
  by (simp add: fetch_def)

lemma perform_as_fetch:
  "perform c net =
     (case fetch (request_of c) net of
        (Rejected e, net') \<Rightarrow> (Inl e, net')
      | (Resolved res, net') \<Rightarrow>
          if \<not> ok res then (Inl (Error (operation_name c @ '' error: '' @ show_nat (status res))), net')
          else (json res, net'))"
  by (cases c)
     (auto simp: runResearchAgent_def runSentimentAgent_def runPortfolioAgent_def runLLM_def
        request_of_def API_BASE_URL_def json_headers_def split: prod.splits fetch_result.splits)

text \<open>
  C3. Every operation of the API client (research, sentiment, portfolio, llm) sends
  exactly one request, the one the interface table gives for it, whatever the outcome:
  it does not retry, and a second call sends a second request, nothing is cached. When
  the response's status is not a successful one, the operation throws an \<open>Error\<close> whose
  message is the operation's name, \<open>error:\<close> and the status in decimal; when it is
  successful, the operation returns the parsed body as it is. The model has no time,
  so it has nothing to say about timeouts.
\<close>

theorem api_client_contract:
  "sent (snd (perform c net)) = sent net @ [request_of c] \<and>
   respond (snd (perform c net)) = respond net \<and>
   (\<forall>res. respond net (length (sent net)) (request_of c) = Resolved res \<and> \<not> ok res \<longrightarrow>
      fst (perform c net) = Inl (Error (operation_name c @ '' error: '' @ show_nat (status res)))) \<and>
   (\<forall>res v. respond net (length (sent net)) (request_of c) = Resolved res \<and> ok res \<and>
        json_body res = Some v \<longrightarrow>
      fst (perform c net) = Inr v) \<and>
   sent (snd (perform c (snd (perform c net)))) = sent net @ [request_of c, request_of c]"
  by (auto simp: perform_as_fetch fetch_def json_def split: fetch_result.splits)

theorem api_client_contract_witness:
  "(let net = \<lparr>respond = (\<lambda>n req. Resolved \<lparr>status = 500, json_body = None\<rparr>), sent = []\<rparr>;
        c = LLMCall ''auto'' ''hello''
    in respond net (length (sent net)) (request_of c) = Resolved \<lparr>status = 500, json_body = None\<rparr> \<and>
       \<not> ok \<lparr>status = 500, json_body = None\<rparr> \<and>
       fst (perform c net) = Inl (Error ''LLM API error: 500'') \<and>
       sent (snd (perform c net)) = [request_of c]) \<and>
   (let net = \<lparr>respond = (\<lambda>n req. Resolved \<lparr>status = 200, json_body = Some (JObj [(''success'', JBool True)])\<rparr>), sent = []\<rparr>;
        c = ResearchCall ''TCS'' None
    in ok \<lparr>status = 200, json_body = Some (JObj [(''success'', JBool True)])\<rparr> \<and>
       fst (perform c net) = Inr (JObj [(''success'', JBool True)]))"
proof -
  let ?r5 = "\<lparr>status = 500, json_body = None\<rparr>"
  let ?n5 = "\<lparr>respond = (\<lambda>n req. Resolved ?r5), sent = []\<rparr>"
  let ?r2 = "\<lparr>status = 200, json_body = Some (JObj [(''success'', JBool True)])\<rparr>"
  let ?n2 = "\<lparr>respond = (\<lambda>n req. Resolved ?r2), sent = []\<rparr>"
  have a: "\<not> ok ?r5" by (simp add: ok_def)
  have b: "ok ?r2" by (simp add: ok_def)
  have s: "show_nat 500 = ''500''" by code_simp
  from api_client_contract[of "LLMCall ''auto'' ''hello''" ?n5] a
  have "fst (perform (LLMCall ''auto'' ''hello'') ?n5) = Inl (Error ''LLM API error: 500'')"
    and "sent (snd (perform (LLMCall ''auto'' ''hello'') ?n5)) = [request_of (LLMCall ''auto'' ''hello'')]"
    by (simp_all add: s)
  moreover from api_client_contract[of "ResearchCall ''TCS'' None" ?n2] b
  have "fst (perform (ResearchCall ''TCS'' None) ?n2) = Inr (JObj [(''success'', JBool True)])"
    by simp
  ultimately show ?thesis using a b by (simp add: Let_def)
qed

subsection \<open>Handling a research response\<close>

lemma apply_updaters_messages:
  "apply_updaters prev (map Inr ms @ us) = apply_updaters (prev @ ms) us"
  by (induction ms arbitrary: prev) simp_all

lemma apply_updaters_all_messages:
  "apply_updaters prev (map Inr ms) = Inr (prev @ ms)"
  using apply_updaters_messages[of prev ms "[]"] by simp

lemma step_updater_object:
  "s \<noteq> JNull \<Longrightarrow> s \<noteq> JUndefined \<Longrightarrow>
     step_updater s =
       Inr \<lparr>msg_id = None, msg_type = js_or (get_opt s ''type'') (JStr ''step''),
            content = get_opt s ''content''\<rparr>"
  by (cases s) (simp_all add: step_updater_def)

lemma step_updaters_objects:
  "\<forall>s\<in>set ss. s \<noteq> JNull \<and> s \<noteq> JUndefined \<Longrightarrow>
     map step_updater ss =
       map Inr (map (\<lambda>s. \<lparr>msg_id = None, msg_type = js_or (get_opt s ''type'') (JStr ''step''),
                             content = get_opt s ''content''\<rparr>) ss)"
  by (induction ss) (simp_all add: step_updater_object)

text \<open>
  C1, as amended. For every research response \<open>res\<close> whose \<open>data\<close> can be read (\<open>res\<close> is
  not \<open>null\<close>), with \<open>d\<close> its \<open>data\<close>.

  In \<open>runAgent\<close> (ResearchAgent): if \<open>d.steps\<close> is present the steps list is replaced by it
  as received, and is left as it was otherwise; if \<open>d.ai_summary\<close> is present exactly one
  agent message with that content is appended and the final answer is set to it;
  otherwise no message is appended and the final answer is left as it was. Neither
  \<open>summary\<close> nor \<open>recommendations\<close> is read there.

  In the research branch of \<open>sendMessage\<close> (FloatingAgent), which has no steps list and no
  final answer: when \<open>d.steps\<close>, if present, is an array of objects, and
  \<open>d.recommendations\<close>, if it is used, is an array, nothing is thrown; one message per step
  is appended to the message log in the order received, typed by the step's type or
  \<open>step\<close>; then exactly one agent message with \<open>ai_summary\<close>, or \<open>summary\<close> when that is
  absent; or else, if \<open>d.recommendations\<close> is present, exactly one agent message whose
  content is the heading, a line feed and the recommendations joined by line feeds; and
  no further message when none of these fields is present.
\<close>

theorem research_result_handling:
  assumes "get res ''data'' = Inr d"
  shows
  "steps (runAgent_settle st (Inr res) now) =
     (if truthy (get_opt d ''steps'') then get_opt d ''steps'' else steps st) \<and>
   messages (runAgent_settle st (Inr res) now) =
     messages st @
       (if truthy (get_opt d ''ai_summary'')
        then [\<lparr>msg_id = Some (now + 1), msg_type = JStr ''agent'',
               content = get_opt d ''ai_summary''\<rparr>]
        else []) \<and>
   finalAns (runAgent_settle st (Inr res) now) =
     (if truthy (get_opt d ''ai_summary'') then get_opt d ''ai_summary'' else finalAns st) \<and>
   ((truthy (get_opt d ''steps'') \<longrightarrow>
       isArray (get_opt d ''steps'') \<and>
       (\<forall>s\<in>set (elements (get_opt d ''steps'')). s \<noteq> JNull \<and> s \<noteq> JUndefined)) \<and>
    (\<not> truthy (js_or (get_opt d ''ai_summary'') (get_opt d ''summary'')) \<and>
       truthy (get_opt d ''recommendations'') \<longrightarrow> isArray (get_opt d ''recommendations'')) \<longrightarrow>
    fst (research_reply res) = None \<and>
    apply_updaters prev (snd (research_reply res)) =
      Inr (prev @
           (if truthy (get_opt d ''steps'')
            then map (\<lambda>s. \<lparr>msg_id = None, msg_type = js_or (get_opt s ''type'') (JStr ''step''),
                            content = get_opt s ''content''\<rparr>) (elements (get_opt d ''steps''))
            else []) @
           (if truthy (js_or (get_opt d ''ai_summary'') (get_opt d ''summary''))
            then [\<lparr>msg_id = None, msg_type = JStr ''agent'',
                   content = js_or (get_opt d ''ai_summary'') (get_opt d ''summary'')\<rparr>]
            else if truthy (get_opt d ''recommendations'')
            then [\<lparr>msg_id = None, msg_type = JStr ''agent'',
                   content = JStr (''**Recommendations:**'' @ [CHR 0x0A] @
                                   join (elements (get_opt d ''recommendations'')) [CHR 0x0A])\<rparr>]
            else [])))"
proof (intro conjI impI)
  show "steps (runAgent_settle st (Inr res) now) =
     (if truthy (get_opt d ''steps'') then get_opt d ''steps'' else steps st)"
    using assms by (simp add: runAgent_settle_def runAgent_try_def Let_def)
  show "messages (runAgent_settle st (Inr res) now) =
     messages st @
       (if truthy (get_opt d ''ai_summary'')
        then [\<lparr>msg_id = Some (now + 1), msg_type = JStr ''agent'',
               content = get_opt d ''ai_summary''\<rparr>]
        else [])"
    using assms by (simp add: runAgent_settle_def runAgent_try_def Let_def)
  show "finalAns (runAgent_settle st (Inr res) now) =
     (if truthy (get_opt d ''ai_summary'') then get_opt d ''ai_summary'' else finalAns st)"
    using assms by (simp add: runAgent_settle_def runAgent_try_def Let_def)
next
  assume wf: "(truthy (get_opt d ''steps'') \<longrightarrow>
       isArray (get_opt d ''steps'') \<and>
       (\<forall>s\<in>set (elements (get_opt d ''steps'')). s \<noteq> JNull \<and> s \<noteq> JUndefined)) \<and>
    (\<not> truthy (js_or (get_opt d ''ai_summary'') (get_opt d ''summary'')) \<and>
       truthy (get_opt d ''recommendations'') \<longrightarrow> isArray (get_opt d ''recommendations''))"
  then show "fst (research_reply res) = None"
    using assms by (simp add: research_reply_def Let_def)
  let ?msgs = "if truthy (get_opt d ''steps'')
            then map (\<lambda>s. \<lparr>msg_id = None, msg_type = js_or (get_opt s ''type'') (JStr ''step''),
                            content = get_opt s ''content''\<rparr>) (elements (get_opt d ''steps''))
            else []"
  let ?final = "if truthy (js_or (get_opt d ''ai_summary'') (get_opt d ''summary''))
            then [\<lparr>msg_id = None, msg_type = JStr ''agent'',
                   content = js_or (get_opt d ''ai_summary'') (get_opt d ''summary'')\<rparr>]
            else if truthy (get_opt d ''recommendations'')
            then [\<lparr>msg_id = None, msg_type = JStr ''agent'',
                   content = JStr (''**Recommendations:**'' @ [CHR 0x0A] @
                                   join (elements (get_opt d ''recommendations'')) [CHR 0x0A])\<rparr>]
            else []"
  have "snd (research_reply res) = map Inr ?msgs @ map Inr ?final"
    using assms wf
    by (simp add: research_reply_def Let_def step_updaters_objects recommendations_updater_def)
  then have "snd (research_reply res) = map Inr (?msgs @ ?final)" by simp
  then show "apply_updaters prev (snd (research_reply res)) = Inr (prev @ ?msgs @ ?final)"
    by (simp only: apply_updaters_all_messages)
qed

theorem research_result_handling_witness:
  "get (JObj [(''data'', JObj [(''steps'', JArr [JObj [(''type'', JStr ''tool''),
                                                     (''content'', JStr ''fetched price'')]]),
                               (''ai_summary'', JStr ''Buy signal'')])]) ''data'' =
     Inr (JObj [(''steps'', JArr [JObj [(''type'', JStr ''tool''),
                                        (''content'', JStr ''fetched price'')]]),
                (''ai_summary'', JStr ''Buy signal'')]) \<and>
   steps (runAgent_settle initial_research_state
            (Inr (JObj [(''data'', JObj [(''steps'', JArr [JObj [(''type'', JStr ''tool''),
                                                     (''content'', JStr ''fetched price'')]]),
                               (''ai_summary'', JStr ''Buy signal'')])])) 5) =
     JArr [JObj [(''type'', JStr ''tool''), (''content'', JStr ''fetched price'')]] \<and>
   messages (runAgent_settle initial_research_state
            (Inr (JObj [(''data'', JObj [(''steps'', JArr [JObj [(''type'', JStr ''tool''),
                                                     (''content'', JStr ''fetched price'')]]),
                               (''ai_summary'', JStr ''Buy signal'')])])) 5) =
     [\<lparr>msg_id = Some 6, msg_type = JStr ''agent'', content = JStr ''Buy signal''\<rparr>] \<and>
   apply_updaters []
     (snd (research_reply
        (JObj [(''data'', JObj [(''steps'', JArr [JObj [(''type'', JStr ''tool''),
                                                     (''content'', JStr ''fetched price'')]]),
                               (''ai_summary'', JStr ''Buy signal'')])]))) =
     Inr [\<lparr>msg_id = None, msg_type = JStr ''tool'', content = JStr ''fetched price''\<rparr>,
          \<lparr>msg_id = None, msg_type = JStr ''agent'', content = JStr ''Buy signal''\<rparr>]"
proof -
  let ?d = "JObj [(''steps'', JArr [JObj [(''type'', JStr ''tool''),
                                        (''content'', JStr ''fetched price'')]]),
                (''ai_summary'', JStr ''Buy signal'')]"
  let ?res = "JObj [(''data'', ?d)]"
  have d: "get ?res ''data'' = Inr ?d" by (simp add: lookup_def)
  have f: "get_opt ?d ''steps'' =
             JArr [JObj [(''type'', JStr ''tool''), (''content'', JStr ''fetched price'')]]"
          "get_opt ?d ''ai_summary'' = JStr ''Buy signal''"
          "get_opt ?d ''summary'' = JUndefined"
          "get_opt ?d ''recommendations'' = JUndefined"
    by (simp_all add: lookup_def)
  from research_result_handling[OF d, of initial_research_state 5 "[]"]
  show ?thesis
    unfolding f by (simp add: d js_or_def lookup_def initial_research_state_def)
qed

text \<open>
  C1 as stated fails at both call sites. \<open>runAgent\<close> appends nothing for a response that
  has recommendations only; \<open>sendMessage\<close> appends the steps it receives to its message
  log, after the messages already there, and keeps no steps list to replace.
\<close>

theorem research_result_counterexample:
  "messages (runAgent_settle initial_research_state
      (Inr (JObj [(''data'', JObj [(''recommendations'', JArr [JStr ''Buy'', JStr ''Hold''])])])) 5) = [] \<and>
   apply_updaters [\<lparr>msg_id = None, msg_type = JStr ''tool'', content = JStr ''earlier step''\<rparr>]
     (snd (research_reply
        (JObj [(''data'', JObj [(''steps'', JArr [JObj [(''type'', JStr ''tool''),
                                                     (''content'', JStr ''fetched price'')]]),
                               (''ai_summary'', JStr ''Buy signal'')])]))) =
     Inr [\<lparr>msg_id = None, msg_type = JStr ''tool'', content = JStr ''earlier step''\<rparr>,
          \<lparr>msg_id = None, msg_type = JStr ''tool'', content = JStr ''fetched price''\<rparr>,
          \<lparr>msg_id = None, msg_type = JStr ''agent'', content = JStr ''Buy signal''\<rparr>]"
  by (simp add: runAgent_settle_def runAgent_try_def research_reply_def step_updater_def
        lookup_def js_or_def initial_research_state_def Let_def)

subsection \<open>Transport errors and LLM responses\<close>

lemma perform_not_ok:
  assumes "respond net (length (sent net)) (request_of c) = Resolved r" and "\<not> ok r"
  shows "fst (perform c net) = Inl (Error (operation_name c @ '' error: '' @ show_nat (status r)))"
  using assms by (simp add: perform_as_fetch fetch_def)

text \<open>
  \<open>runAgent\<close> and \<open>sendMessage\<close> call the client inside a \<open>try\<close>: an error it throws becomes
  one error message, the busy flag goes back to false and nothing else changes.
\<close>

lemma runAgent_transport_error_caught:
  assumes "runAgent_start st t0 = Some st1"
    and "fst (runResearchAgent (ticker st) (Some (query st)) net) = Inl e"
  shows "fst (runAgent st t0 t1 net) =
           st1\<lparr>messages := messages st1 @
                  [\<lparr>msg_id = Some (t1 + 2), msg_type = JStr ''error'',
                    content = JStr ''Research Agent crashed. Try again.''\<rparr>],
               loading := False\<rparr>"
  using assms
  by (auto simp: runAgent_def runAgent_settle_def runAgent_catch_def split: prod.splits)

lemma sendMessage_transport_error_caught:
  assumes "trim (fa_input st) \<noteq> []"
    and "\<And>c. \<exists>e. fst (perform c net) = Inl e"
  shows "\<exists>e. fst (sendMessage st net) =
             Done (st\<lparr>fa_messages := fa_messages st @
                        [\<lparr>msg_id = None, msg_type = JStr ''user'', content = JStr (fa_input st)\<rparr>,
                         \<lparr>msg_id = None, msg_type = JStr ''error'',
                          content = JStr (warning_sign @ '' Error: '' @
                            (if error_message e \<noteq> [] then error_message e
                             else ''Agent failed. Try again.''))\<rparr>],
                      fa_input := [], isThinking := False\<rparr>)"
proof (cases "classify (trim (fa_input st))")
  case (Research tk q)
  from assms(2)[of "ResearchCall tk (Some q)"] obtain e where
    "fst (runResearchAgent tk (Some q) net) = Inl e" by auto
  then show ?thesis
    using assms(1) Research
    by (intro exI[of _ e])
       (auto simp: sendMessage_def sendMessage_try_def catch_updater_def split: prod.splits)
next
  case (GenericLLM model prompt)
  from assms(2)[of "LLMCall model prompt"] obtain e where
    "fst (runLLM model prompt net) = Inl e" by auto
  then show ?thesis
    using assms(1) GenericLLM
    by (intro exI[of _ e])
       (auto simp: sendMessage_def sendMessage_try_def catch_updater_def split: prod.splits)
qed

text \<open>
  \<open>runGemini\<close> and \<open>runGroq\<close> call the client outside any \<open>try\<close>: the error leaves the
  handler, no message is appended and \<open>loading\<close> stays true.
\<close>

lemma runGemini_transport_error_unhandled:
  assumes "trim (query st) \<noteq> []"
    and "fst (runLLM ''gemini-pro'' (query st) net) = Inl e"
  shows "fst (runGemini st now net) = Unhandled e (st\<lparr>loading := True\<rparr>)"
  using assms by (auto simp: runGemini_def runGeminiLLM_def split: prod.splits)

lemma runGroq_transport_error_unhandled:
  assumes "trim (query st) \<noteq> []"
    and "fst (runLLM ''groq-llama3'' (query st) net) = Inl e"
  shows "fst (runGroq st now net) = Unhandled e (st\<lparr>loading := True\<rparr>)"
  using assms by (auto simp: runGroq_def runGroqLLM_def split: prod.splits)

lemma show_nat_500: "show_nat 500 = ''500''"
  by code_simp

lemma trim_hi: "trim ''hi'' = ''hi''"
  by code_simp

text \<open>
  C4. A transport error thrown by the API client is to be caught at the call site and
  turned into exactly one error message, with the loading flag back to false and the
  error kept inside the handler. \<open>runGemini\<close> does not do so: with the query \<open>hi\<close> and a
  backend that answers with status 500, the handler ends with the error unhandled, the
  message log still empty and \<open>loading\<close> true.
\<close>

theorem runGemini_transport_error_escapes:
  "fst (runGemini (initial_research_state\<lparr>query := ''hi''\<rparr>) 1000
          (always_responds \<lparr>status = 500, json_body = None\<rparr>)) =
     Unhandled (Error ''LLM API error: 500'')
       (initial_research_state\<lparr>query := ''hi'', loading := True\<rparr>)"
  by (simp add: runGemini_def runGeminiLLM_def runLLM_def fetch_def always_responds_def ok_def
        initial_research_state_def trim_hi show_nat_500)

text \<open>
  The LLM branch of \<open>sendMessage\<close> reads \<open>success\<close>, \<open>response\<close> and \<open>error\<close>: one agent message
  when \<open>success\<close> and \<open>response\<close> are both present, one error message with \<open>error\<close> or the
  fixed text otherwise.
\<close>

lemma llm_reply_contract:
  assumes "res \<noteq> JNull" and "res \<noteq> JUndefined"
  shows "llm_reply res =
           (None,
            [Inr (if truthy (get_opt res ''success'') \<and> truthy (get_opt res ''response'')
                  then \<lparr>msg_id = None, msg_type = JStr ''agent'', content = get_opt res ''response''\<rparr>
                  else \<lparr>msg_id = None, msg_type = JStr ''error'',
                        content = (if truthy (get_opt res ''error'') then get_opt res ''error''
                                   else JStr ''Failed to get response'')\<rparr>)])"
  using assms by (cases res) (auto simp: llm_reply_def js_and_def js_or_def)

text \<open>
  C5. An LLM response is to give one agent message with \<open>response.response\<close> when
  \<open>success\<close> and \<open>response\<close> are both present, and one error message with \<open>response.error\<close>
  or a fixed text otherwise. \<open>runGemini\<close> appends an agent message whatever the response
  says: for \<open>{success: false, error: "rate limited"}\<close> the message log gains an agent
  message whose content is \<open>undefined\<close>.
\<close>

theorem runGemini_failed_response_shown_as_answer:
  "fst (runGemini (initial_research_state\<lparr>query := ''hi''\<rparr>) 1000
          (always_responds \<lparr>status = 200,
             json_body = Some (JObj [(''success'', JBool False), (''error'', JStr ''rate limited'')])\<rparr>)) =
     Done (initial_research_state\<lparr>query := ''hi'',
             messages := [\<lparr>msg_id = Some 1000, msg_type = JStr ''agent'', content = JUndefined\<rparr>]\<rparr>)"
  by (simp add: runGemini_def runGeminiLLM_def runLLM_def fetch_def always_responds_def ok_def
        json_def lookup_def initial_research_state_def trim_hi)

subsection \<open>Research runs\<close>

lemma runAgent_start_Some:
  assumes "trim (query st) \<noteq> []" and "trim (ticker st) \<noteq> []"
  shows "runAgent_start st now =
           Some (st\<lparr>messages := messages st @
                       [\<lparr>msg_id = Some now, msg_type = JStr ''user'',
                         content = JStr (''Ticker: '' @ ticker st @ [CHR 0x0A] @ ''Query: '' @ query st)\<rparr>],
                     steps := JArr [], finalAns := JStr [], loading := True\<rparr>)"
  using assms by (simp add: runAgent_start_def)

lemma runAgent_settle_steps:
  "steps st = JArr [] \<Longrightarrow> steps (runAgent_settle st r now) = steps_of_outcome r"
  by (auto simp: runAgent_settle_def runAgent_try_def runAgent_catch_def steps_of_outcome_def
        Let_def split: sum.splits)

lemma runAgent_settle_finalAns:
  "finalAns st = JStr [] \<Longrightarrow> finalAns (runAgent_settle st r now) = answer_of_outcome r"
  by (auto simp: runAgent_settle_def runAgent_try_def runAgent_catch_def answer_of_outcome_def
        Let_def split: sum.splits)

text \<open>
  C6, as amended. Every new research run (the guard passed) clears both the steps list
  and the final answer, to \<open>[]\<close> and \<open>""\<close>, before its request is issued. When no other run
  comes in between, the steps list and the final answer after the run are those of the
  run's own outcome: its \<open>data.steps\<close> and \<open>data.ai_summary\<close> where present, and empty
  otherwise, whatever they held before the run.
\<close>

theorem research_run_clears_then_owns:
  assumes "trim (query st) \<noteq> []" and "trim (ticker st) \<noteq> []"
  shows "(\<exists>st1. runAgent_start st t0 = Some st1 \<and> steps st1 = JArr [] \<and> finalAns st1 = JStr []) \<and>
         steps (fst (runAgent st t0 t1 net)) =
           steps_of_outcome (fst (runResearchAgent (ticker st) (Some (query st)) net)) \<and>
         finalAns (fst (runAgent st t0 t1 net)) =
           answer_of_outcome (fst (runResearchAgent (ticker st) (Some (query st)) net))"
proof (intro conjI)
  note start = runAgent_start_Some[OF assms]
  show "\<exists>st1. runAgent_start st t0 = Some st1 \<and> steps st1 = JArr [] \<and> finalAns st1 = JStr []"
    by (simp add: start)
  obtain r net' where r: "runResearchAgent (ticker st) (Some (query st)) net = (r, net')"
    by (cases "runResearchAgent (ticker st) (Some (query st)) net")
  show "steps (fst (runAgent st t0 t1 net)) =
           steps_of_outcome (fst (runResearchAgent (ticker st) (Some (query st)) net))"
    by (simp add: runAgent_def start r runAgent_settle_steps)
  show "finalAns (fst (runAgent st t0 t1 net)) =
           answer_of_outcome (fst (runResearchAgent (ticker st) (Some (query st)) net))"
    by (simp add: runAgent_def start r runAgent_settle_finalAns)
qed

lemma trim_outlook: "trim ''outlook'' = ''outlook''" "trim ''TCS.NS'' = ''TCS.NS''"
  by code_simp+

text \<open>
  C6 as stated fails when two runs overlap, which nothing prevents: there is no run id
  and no cancellation. After both runs of \<open>overlapping_runs\<close> have settled, the steps
  list holds the steps of run B and the final answer is that of run A.
\<close>

theorem overlapping_runs_counterexample:
  "steps overlapping_runs =
     JArr [JObj [(''type'', JStr ''tool''), (''content'', JStr ''step of run B'')]] \<and>
   finalAns overlapping_runs = JStr ''answer of run A''"
  by (simp add: overlapping_runs_def runAgent_before_await_def runAgent_start_def
        runAgent_settle_def runAgent_try_def response_A_def response_B_def lookup_def
        initial_research_state_def trim_outlook Let_def)

theorem research_run_clears_then_owns_witness:
  "trim (query (initial_research_state\<lparr>query := ''outlook'', ticker := ''TCS.NS''\<rparr>)) \<noteq> [] \<and>
   trim (ticker (initial_research_state\<lparr>query := ''outlook'', ticker := ''TCS.NS''\<rparr>)) \<noteq> [] \<and>
   steps (fst (runAgent (initial_research_state\<lparr>query := ''outlook'', ticker := ''TCS.NS''\<rparr>) 10 20
            (always_responds \<lparr>status = 200, json_body = Some response_B\<rparr>))) =
     JArr [JObj [(''type'', JStr ''tool''), (''content'', JStr ''step of run B'')]] \<and>
   finalAns (fst (runAgent (initial_research_state\<lparr>query := ''outlook'', ticker := ''TCS.NS''\<rparr>) 10 20
            (always_responds \<lparr>status = 200, json_body = Some response_B\<rparr>))) = JStr []"
proof -
  let ?st = "initial_research_state\<lparr>query := ''outlook'', ticker := ''TCS.NS''\<rparr>"
  let ?net = "always_responds \<lparr>status = 200, json_body = Some response_B\<rparr>"
  have q: "trim (query ?st) \<noteq> []" and t: "trim (ticker ?st) \<noteq> []"
    by (simp_all add: trim_outlook)
  have r: "fst (runResearchAgent (ticker ?st) (Some (query ?st)) ?net) = Inr response_B"
    by (simp add: runResearchAgent_def fetch_def always_responds_def ok_def json_def)
  from research_run_clears_then_owns[OF q t, of 10 20 ?net] q t
  show ?thesis
    unfolding r
    by (simp add: steps_of_outcome_def answer_of_outcome_def response_B_def lookup_def)
qed

subsection \<open>Message ids\<close>















subsection \<open>Exporting\<close>

lemma export_try_rasterization_throws:
  "html2canvas libs node = Inl e \<Longrightarrow> export_try libs node = Inl e"
  by (simp add: export_try_def)

lemma export_try_save_throws:
  assumes "html2canvas libs node = Inr canvas"
    and "toDataURL libs canvas = Inr imgData"
    and "new_jsPDF libs = None"
    and "getImageProperties libs imgData = Inr imgProps"
    and "getWidth libs = Inr pdfWidth"
    and "\<And>args. addImage libs args = None"
    and "save libs ''research-report.pdf'' = Some e"
  shows "export_try libs node = Inl e"
  using assms by (simp add: export_try_def)

text \<open>
  C8. When the PDF export fails, that is when any call of the \<open>try\<close> throws, the
  rasterizer and the document's \<open>save\<close> among them, the error is caught: it is logged to
  the console, the alert \<open>Failed to export PDF\<close> is shown, the exporting flag is false
  again, and the messages, the steps, the final answer and the loading flag are as they
  were. The handler has no way to end other than returning.
\<close>

theorem export_failure_contained:
  assumes "export_try libs node = Inl e"
  shows "handleExportPdf st br libs (Some node) =
           (st\<lparr>exporting := False\<rparr>,
            br\<lparr>console_errors := console_errors br @ [e],
               alerts := alerts br @ [''Failed to export PDF'']\<rparr>) \<and>
         \<not> exporting (fst (handleExportPdf st br libs (Some node))) \<and>
         messages (fst (handleExportPdf st br libs (Some node))) = messages st \<and>
         steps (fst (handleExportPdf st br libs (Some node))) = steps st \<and>
         finalAns (fst (handleExportPdf st br libs (Some node))) = finalAns st \<and>
         loading (fst (handleExportPdf st br libs (Some node))) = loading st \<and>
         downloads (snd (handleExportPdf st br libs (Some node))) = downloads br"
  using assms by (simp add: handleExportPdf_def)

theorem export_failure_contained_witness:
  "export_try failing_rasterizer ''pane'' = Inl (Error ''Unable to clone the element'') \<and>
   handleExportPdf (initial_research_state\<lparr>loading := True\<rparr>)
       \<lparr>console_errors = [], alerts = [], downloads = []\<rparr> failing_rasterizer (Some ''pane'') =
     (initial_research_state\<lparr>loading := True\<rparr>,
      \<lparr>console_errors = [Error ''Unable to clone the element''],
       alerts = [''Failed to export PDF''], downloads = []\<rparr>)"
proof -
  have f: "export_try failing_rasterizer ''pane'' = Inl (Error ''Unable to clone the element'')"
    by (rule export_try_rasterization_throws) (simp add: failing_rasterizer_def)
  from export_failure_contained[OF f, of "initial_research_state\<lparr>loading := True\<rparr>"
      "\<lparr>console_errors = [], alerts = [], downloads = []\<rparr>"] f
  show ?thesis by (simp add: initial_research_state_def)
qed

subsection \<open>Rendering a chart step\<close>

lemma get_opt_JStr_object:
  "get_opt v k = JStr s \<Longrightarrow> \<exists>kvs. v = JObj kvs"
  by (cases v) simp_all

text \<open>
  C10, as amended. Every step of type \<open>chart\<close> renders without failing. While the step is
  not collapsed, the chart renderer is called only when \<open>chartData\<close> is present (truthy),
  and then with a missing \<open>xKey\<close> replaced by \<open>x\<close> and a missing \<open>yKey\<close> by \<open>y\<close>: it gives the
  \<open>No chart data\<close> placeholder when \<open>chartData\<close> is not an array or is an empty array, and
  the line chart otherwise. When \<open>chartData\<close> is absent the step shows no chart and no
  placeholder.
\<close>

theorem chart_step_rendering:
  assumes "get_opt step ''type'' = JStr ''chart''"
  shows "\<exists>content_child.
           StepItem step index is_collapsed =
             Inr \<lparr>step_number = index + 1, type_label = JStr ''chart'',
                  toggle_label = (if is_collapsed then ''Expand'' else ''Collapse''),
                  body =
                    (if is_collapsed then []
                     else [content_child,
                           if \<not> truthy (get_opt step ''chartData'')
                           then Raw (get_opt step ''chartData'')
                           else if isArray (get_opt step ''chartData'') \<and>
                                   elements (get_opt step ''chartData'') \<noteq> []
                           then Chart (LineChart (elements (get_opt step ''chartData''))
                                  (if truthy (get_opt step ''xKey'') then get_opt step ''xKey''
                                   else JStr ''x'')
                                  (if truthy (get_opt step ''yKey'') then get_opt step ''yKey''
                                   else JStr ''y''))
                           else Chart NoChartData])\<rparr>"
proof -
  from get_opt_JStr_object[OF assms] obtain kvs where s: "step = JObj kvs" by blast
  with assms have t: "lookup kvs ''type'' = JStr ''chart''" by simp
  show ?thesis
    by (intro exI[of _ "if truthy (get_opt step ''content'') then Markdown (get_opt step ''content'')
                         else Raw (get_opt step ''content'')"])
       (simp add: StepItem_def ChartCard_def js_or_def Let_def s t)
qed

theorem chart_step_rendering_witness:
  "get_opt (JObj [(''type'', JStr ''chart''), (''chartData'', JArr [])]) ''type'' = JStr ''chart'' \<and>
   StepItem (JObj [(''type'', JStr ''chart''), (''chartData'', JArr [])]) 0 False =
     Inr \<lparr>step_number = 1, type_label = JStr ''chart'', toggle_label = ''Collapse'',
          body = [Raw JUndefined, Chart NoChartData]\<rparr> \<and>
   get_opt (JObj [(''type'', JStr ''chart''),
                  (''chartData'', JArr [JObj [(''x'', JNum 1), (''y'', JNum 2)]])]) ''type'' =
     JStr ''chart'' \<and>
   StepItem (JObj [(''type'', JStr ''chart''),
                   (''chartData'', JArr [JObj [(''x'', JNum 1), (''y'', JNum 2)]])]) 0 False =
     Inr \<lparr>step_number = 1, type_label = JStr ''chart'', toggle_label = ''Collapse'',
          body = [Raw JUndefined,
                  Chart (LineChart [JObj [(''x'', JNum 1), (''y'', JNum 2)]] (JStr ''x'') (JStr ''y''))]\<rparr>"
proof -
  let ?s1 = "JObj [(''type'', JStr ''chart''), (''chartData'', JArr [])]"
  let ?s2 = "JObj [(''type'', JStr ''chart''),
                   (''chartData'', JArr [JObj [(''x'', JNum 1), (''y'', JNum 2)]])]"
  have a: "get_opt ?s1 ''type'' = JStr ''chart''" by (simp add: lookup_def)
  have b: "get_opt ?s2 ''type'' = JStr ''chart''" by (simp add: lookup_def)
  have c1: "StepItem ?s1 0 False = Inr \<lparr>step_number = 1, type_label = JStr ''chart'',
          toggle_label = ''Collapse'', body = [Raw JUndefined, Chart NoChartData]\<rparr>"
    by (simp add: StepItem_def ChartCard_def js_or_def lookup_def Let_def)
  from chart_step_rendering[OF b, of 0 False]
  have c2: "StepItem ?s2 0 False =
     Inr \<lparr>step_number = 1, type_label = JStr ''chart'', toggle_label = ''Collapse'',
          body = [Raw JUndefined,
                  Chart (LineChart [JObj [(''x'', JNum 1), (''y'', JNum 2)]] (JStr ''x'') (JStr ''y''))]\<rparr>"
    by (simp add: StepItem_def ChartCard_def js_or_def lookup_def Let_def)
  from a b c1 c2 show ?thesis by simp
qed

text \<open>
  C10 as stated fails for a chart step without \<open>chartData\<close>: \<open>StepItem\<close> tests
  \<open>step.type === "chart" && step.chartData\<close> before it calls the chart renderer, so the
  step's body holds its content and no placeholder.
\<close>

theorem chart_placeholder_counterexample:
  "StepItem (JObj [(''type'', JStr ''chart''), (''content'', JStr ''Price history'')]) 0 False =
     Inr \<lparr>step_number = 1, type_label = JStr ''chart'', toggle_label = ''Collapse'',
          body = [Markdown (JStr ''Price history''), Raw JUndefined]\<rparr>"
  by (simp add: StepItem_def js_or_def lookup_def Let_def)

subsection \<open>From the classifier to the client\<close>

text \<open>
  \<open>sendMessage\<close> gives the classifier the trimmed text of the input field, and only when
  that is not empty: on blank input it returns at once, and otherwise it sends exactly
  the one request of the route the classifier chose.
\<close>

lemma perform_sent: "sent (snd (perform c net)) = sent net @ [request_of c]"
  by (auto simp: perform_as_fetch fetch_def split: fetch_result.splits)

lemma sendMessage_try_sent:
  "sent (snd (sendMessage_try u net)) = sent net @ [request_of (call_of_route (classify u))]"
proof (cases "classify u")
  case (Research tk q)
  have "sent (snd (sendMessage_try u net)) = sent (snd (perform (ResearchCall tk (Some q)) net))"
    by (auto simp: sendMessage_try_def Research split: prod.splits sum.splits option.splits)
  then show ?thesis by (simp only: perform_sent Research call_of_route.simps)
next
  case (GenericLLM model prompt)
  have "sent (snd (sendMessage_try u net)) = sent (snd (perform (LLMCall model prompt) net))"
    by (auto simp: sendMessage_try_def GenericLLM split: prod.splits sum.splits option.splits)
  then show ?thesis by (simp only: perform_sent GenericLLM call_of_route.simps)
qed

lemma sendMessage_blank:
  "trim (fa_input st) = [] \<Longrightarrow> sendMessage st net = (Done st, net)"
  by (simp add: sendMessage_def)

lemma sendMessage_sends:
  "trim (fa_input st) \<noteq> [] \<Longrightarrow>
     sent (snd (sendMessage st net)) =
       sent net @ [request_of (call_of_route (classify (trim (fa_input st))))]"
  using sendMessage_try_sent[of "trim (fa_input st)" net]
  by (auto simp: sendMessage_def split: prod.splits sum.splits)

end
